theory Spec2Isabelle
  imports Complex_Main "HOL-Library.AList"
begin

section \<open>Choco Crunch Analytics: the pipeline of \<open>run_all.py\<close>\<close>

text \<open>
  The development embeds the helpers and the pipeline steps of \<open>run_all.py\<close>:
  \<open>to_float\<close>, \<open>normalize_brand\<close>, \<open>step_clean_transform\<close>,
  \<open>step_feature_engineer\<close> and \<open>step_analytics\<close>. Python values are a datatype,
  exceptions are the left summand of a sum type, a DataFrame is a record of its column
  names and its rows, and the files exchanged between the steps are values passed from
  one step to the next.

  Conventions of the model:
  \<^item> strings are ASCII: \<open>str.split\<close>, \<open>str.strip\<close> and \<open>str.title\<close> know the ASCII
    white space and the ASCII letters only;
  \<^item> a finite binary64 number is the rational it denotes (so \<open>-0.0\<close> and \<open>0.0\<close> are
    one value), and an arithmetic operation is the exact operation followed by rounding
    to the nearest binary64 number, ties to even.
\<close>

subsection \<open>Floating-point numbers\<close>

datatype pyfloat = Finite rat | PosInf | NegInf | NaN

definition pow2 :: "int \<Rightarrow> rat" where
  "pow2 e = (if 0 \<le> e then 2 ^ nat e else 1 / 2 ^ nat (- e))"

definition pow10 :: "int \<Rightarrow> rat" where
  "pow10 e = (if 0 \<le> e then 10 ^ nat e else 1 / 10 ^ nat (- e))"

function ilog2 :: "int \<Rightarrow> int" where
  "ilog2 n = (if n \<le> 1 then 0 else 1 + ilog2 (n div 2))"
  by pat_completeness auto
termination
  by (relation "measure nat") auto

declare ilog2.simps [simp del]

definition binade :: "rat \<Rightarrow> int" where
  \<comment> \<open>the exponent \<open>e\<close> with \<open>2 ^ e \<le> a < 2 ^ (e + 1)\<close>, for \<open>a > 0\<close>\<close>
  "binade a = (let (p, d) = quotient_of a;
                   e = ilog2 p - ilog2 d
               in if pow2 e \<le> a then e else e - 1)"

definition round_half_even :: "rat \<Rightarrow> int" where
  "round_half_even x = (let f = \<lfloor>x\<rfloor>; r = x - of_int f
     in if r < 1 / 2 then f else if 1 / 2 < r then f + 1 else if even f then f else f + 1)"

definition round64 :: "rat \<Rightarrow> pyfloat" where
  \<comment> \<open>53 bits of precision, exponents from -1022 (subnormals below), overflow to infinity:
      the rounded value is \<open>m * 2 ^ (e - 52)\<close> with \<open>m \<le> 2 ^ 53\<close>\<close>
  "round64 q = (if q = 0 then Finite 0 else
     let a = \<bar>q\<bar>;
         e = max (binade a) (- 1022);
         u = pow2 (e - 52);
         m = round_half_even (a / u)
     in if 1023 < e \<or> (e = 1023 \<and> m = 2 ^ 53) then (if 0 < q then PosInf else NegInf)
        else Finite (if 0 < q then of_int m * u else - (of_int m * u)))"

definition isnan :: "pyfloat \<Rightarrow> bool" where
  "isnan x = (x = NaN)"

fun fle :: "pyfloat \<Rightarrow> pyfloat \<Rightarrow> bool" where
  "fle NaN y = False"
| "fle x NaN = False"
| "fle NegInf y = True"
| "fle x PosInf = True"
| "fle PosInf y = False"
| "fle x NegInf = False"
| "fle (Finite a) (Finite b) = (a \<le> b)"

fun flt :: "pyfloat \<Rightarrow> pyfloat \<Rightarrow> bool" where
  "flt NaN y = False"
| "flt x NaN = False"
| "flt PosInf y = False"
| "flt x NegInf = False"
| "flt NegInf y = True"
| "flt x PosInf = True"
| "flt (Finite a) (Finite b) = (a < b)"

definition fgt :: "pyfloat \<Rightarrow> pyfloat \<Rightarrow> bool" where
  "fgt x y = flt y x"

fun feq :: "pyfloat \<Rightarrow> pyfloat \<Rightarrow> bool" where
  "feq NaN y = False"
| "feq x NaN = False"
| "feq x y = (x = y)"

fun fneg :: "pyfloat \<Rightarrow> pyfloat" where
  "fneg (Finite a) = Finite (- a)"
| "fneg PosInf = NegInf"
| "fneg NegInf = PosInf"
| "fneg NaN = NaN"

fun fadd :: "pyfloat \<Rightarrow> pyfloat \<Rightarrow> pyfloat" where
  "fadd NaN y = NaN"
| "fadd x NaN = NaN"
| "fadd PosInf NegInf = NaN"
| "fadd NegInf PosInf = NaN"
| "fadd PosInf y = PosInf"
| "fadd NegInf y = NegInf"
| "fadd x PosInf = PosInf"
| "fadd x NegInf = NegInf"
| "fadd (Finite a) (Finite b) = round64 (a + b)"

fun fdiv :: "pyfloat \<Rightarrow> pyfloat \<Rightarrow> pyfloat" where
  "fdiv NaN y = NaN"
| "fdiv x NaN = NaN"
| "fdiv (Finite a) (Finite b) =
     (if b = 0 then (if a = 0 then NaN else if 0 < a then PosInf else NegInf)
      else round64 (a / b))"
| "fdiv (Finite a) y = Finite 0"
| "fdiv x (Finite b) = (if (x = PosInf) = (0 \<le> b) then PosInf else NegInf)"
| "fdiv x y = NaN"

subsection \<open>Strings\<close>

definition is_space :: "char \<Rightarrow> bool" where
  "is_space c = ((of_char c :: nat) \<in> {9, 10, 11, 12, 13, 28, 29, 30, 31, 32})"

fun split_acc :: "string \<Rightarrow> string \<Rightarrow> string list" where
  "split_acc cur [] = (if cur = [] then [] else [cur])"
| "split_acc cur (c # cs) =
     (if is_space c then (if cur = [] then split_acc [] cs else cur # split_acc [] cs)
      else split_acc (cur @ [c]) cs)"

definition split_ws :: "string \<Rightarrow> string list" where
  \<comment> \<open>\<open>s.split()\<close>: the maximal runs of characters that are not white space\<close>
  "split_ws s = split_acc [] s"

fun split_on :: "char \<Rightarrow> string \<Rightarrow> string list" where
  \<comment> \<open>\<open>s.split(d)\<close> for a one-character separator\<close>
  "split_on d [] = [[]]"
| "split_on d (c # cs) =
     (if c = d then [] # split_on d cs
      else (case split_on d cs of [] \<Rightarrow> [[c]] | x # xs \<Rightarrow> (c # x) # xs))"

definition strip :: "string \<Rightarrow> string" where
  "strip s = rev (dropWhile is_space (rev (dropWhile is_space s)))"

definition lowers :: string where
  "lowers = ''abcdefghijklmnopqrstuvwxyz''"

definition uppers :: string where
  "uppers = ''ABCDEFGHIJKLMNOPQRSTUVWXYZ''"

definition is_cased :: "char \<Rightarrow> bool" where
  "is_cased c = (c \<in> set (lowers @ uppers))"

definition upper_char :: "char \<Rightarrow> char" where
  "upper_char c = (case map_of (zip lowers uppers) c of Some u \<Rightarrow> u | None \<Rightarrow> c)"

definition lower_char :: "char \<Rightarrow> char" where
  "lower_char c = (case map_of (zip uppers lowers) c of Some l \<Rightarrow> l | None \<Rightarrow> c)"

fun title_from :: "bool \<Rightarrow> string \<Rightarrow> string" where
  \<comment> \<open>the flag says whether the previous character was a cased letter\<close>
  "title_from prev [] = []"
| "title_from prev (c # cs) =
     (if prev then lower_char c else upper_char c) # title_from (is_cased c) cs"

definition title :: "string \<Rightarrow> string" where
  "title s = title_from False s"

definition is_digit :: "char \<Rightarrow> bool" where
  "is_digit c = (c \<in> set ''0123456789'')"

definition digit_val :: "char \<Rightarrow> int" where
  "digit_val c = int (of_char c) - 48"

definition digits_val :: "string \<Rightarrow> int" where
  "digits_val ds = foldl (\<lambda>a c. 10 * a + digit_val c) 0 ds"

function dec :: "int \<Rightarrow> string" where
  "dec n = (if n < 10 then [''0123456789'' ! nat n] else dec (n div 10) @ [''0123456789'' ! nat (n mod 10)])"
  by pat_completeness auto
termination
  by (relation "measure nat") auto

declare dec.simps [simp del]

definition str_int :: "int \<Rightarrow> string" where
  "str_int n = (if n < 0 then CHR ''-'' # dec (- n) else dec n)"

subsection \<open>Python values and exceptions\<close>

datatype pyval =
    PNone
  | PBool bool
  | PInt int
  | PFloat pyfloat
  | PStr string
  | PList "pyval list"
  | PDict "(string \<times> pyval) list"

datatype exn =
    IndexError
  | ValueError
  | TypeError
  | AttributeError
  | KeyError string
  | EmptyDataError
  | FileNotFoundError

fun truthy :: "pyval \<Rightarrow> bool" where
  "truthy PNone = False"
| "truthy (PBool b) = b"
| "truthy (PInt n) = (n \<noteq> 0)"
| "truthy (PFloat f) = (f \<noteq> Finite 0)"
| "truthy (PStr s) = (s \<noteq> [])"
| "truthy (PList l) = (l \<noteq> [])"
| "truthy (PDict d) = (d \<noteq> [])"

definition py_or :: "pyval \<Rightarrow> pyval \<Rightarrow> pyval" where
  "py_or a b = (if truthy a then a else b)"

definition dict_get :: "(string \<times> pyval) list \<Rightarrow> string \<Rightarrow> pyval" where
  \<comment> \<open>\<open>d.get(k)\<close>: \<open>None\<close> for a missing key\<close>
  "dict_get d k = (case map_of d k of None \<Rightarrow> PNone | Some v \<Rightarrow> v)"

text \<open>
  \<open>str(x)\<close>. The text of a float, a list or a dict is the interpreter's \<open>repr\<close>, which
  the source does not define: it is the parameter \<open>rp\<close> of every function that calls
  \<open>str\<close>.
\<close>

fun py_str :: "(pyval \<Rightarrow> string) \<Rightarrow> pyval \<Rightarrow> string" where
  "py_str rp PNone = ''None''"
| "py_str rp (PBool b) = (if b then ''True'' else ''False'')"
| "py_str rp (PInt n) = str_int n"
| "py_str rp (PStr s) = s"
| "py_str rp v = rp v"

subsection \<open>\<open>float(s)\<close> on a string\<close>

fun digitpart :: "string \<Rightarrow> string \<times> string" where
  \<comment> \<open>the longest prefix \<open>digit (["_"] digit)*\<close>, without its underscores, and the rest\<close>
  "digitpart [] = ([], [])"
| "digitpart [c] = (if is_digit c then ([c], []) else ([], [c]))"
| "digitpart (c # u # cs) =
     (if \<not> is_digit c then ([], c # u # cs)
      else if u = CHR ''_'' \<and> cs \<noteq> [] \<and> is_digit (hd cs)
        then (case digitpart cs of (ds, r) \<Rightarrow> (c # ds, r))
        else (case digitpart (u # cs) of (ds, r) \<Rightarrow> (c # ds, r)))"

definition parse_sign :: "string \<Rightarrow> bool \<times> string" where
  "parse_sign s = (case s of
       [] \<Rightarrow> (False, [])
     | c # cs \<Rightarrow> if c = CHR ''-'' then (True, cs) else if c = CHR ''+'' then (False, cs)
                else (False, s))"

definition mk_decimal :: "string \<Rightarrow> string \<Rightarrow> int \<Rightarrow> rat" where
  "mk_decimal ip fp e = of_int (digits_val (ip @ fp)) * pow10 (e - int (length fp))"

definition parse_number :: "string \<Rightarrow> rat option" where
  \<comment> \<open>\<open>[digitpart] "." digitpart | digitpart ["."]\<close>, then an optional exponent\<close>
  "parse_number s =
    (case digitpart s of (ip, r1) \<Rightarrow>
      (case (if r1 \<noteq> [] \<and> hd r1 = CHR ''.'' then digitpart (tl r1) else ([], r1)) of (fp, r3) \<Rightarrow>
        if ip = [] \<and> fp = [] then None
        else (case r3 of
            [] \<Rightarrow> Some (mk_decimal ip fp 0)
          | c # cs \<Rightarrow>
              if c = CHR ''e'' \<or> c = CHR ''E'' then
                (case parse_sign cs of (neg, r4) \<Rightarrow>
                  (case digitpart r4 of (ep, r5) \<Rightarrow>
                    if ep = [] \<or> r5 \<noteq> [] then None
                    else Some (mk_decimal ip fp (if neg then - digits_val ep else digits_val ep))))
              else None)))"

definition py_float :: "string \<Rightarrow> pyfloat option" where
  \<comment> \<open>\<open>float(s)\<close>; \<open>None\<close> stands for \<open>ValueError\<close>\<close>
  "py_float s =
    (case parse_sign (strip s) of (neg, r) \<Rightarrow>
      let l = map lower_char r in
      if l = ''inf'' \<or> l = ''infinity'' then Some (if neg then NegInf else PosInf)
      else if l = ''nan'' then Some NaN
      else (case parse_number r of
              None \<Rightarrow> None
            | Some q \<Rightarrow> Some (round64 (if neg then - q else q))))"

subsection \<open>The helpers \<open>to_float\<close> and \<open>normalize_brand\<close>\<close>

definition to_float_try :: "(pyval \<Rightarrow> string) \<Rightarrow> pyval \<Rightarrow> exn + pyfloat" where
  \<comment> \<open>the body of the \<open>try\<close>: \<open>float(str(x).split()[0])\<close>\<close>
  "to_float_try rp x =
    (case split_ws (py_str rp x) of
       [] \<Rightarrow> Inl IndexError
     | tok # _ \<Rightarrow> (case py_float tok of None \<Rightarrow> Inl ValueError | Some v \<Rightarrow> Inr v))"

definition to_float :: "(pyval \<Rightarrow> string) \<Rightarrow> pyval \<Rightarrow> exn + pyfloat" where
  \<comment> \<open>the bare \<open>except\<close> turns every exception of the body into \<open>np.nan\<close>\<close>
  "to_float rp x = (case to_float_try rp x of Inl e \<Rightarrow> Inr NaN | Inr v \<Rightarrow> Inr v)"

definition normalize_brand :: "(pyval \<Rightarrow> string) \<Rightarrow> pyval \<Rightarrow> exn + string" where
  "normalize_brand rp b =
    (if \<not> truthy b then Inr ''Unknown''
     else (case split_on CHR '','' (py_str rp b) of
             [] \<Rightarrow> Inl IndexError
           | seg # _ \<Rightarrow>
               let first = strip seg in
               if first \<noteq> [] then Inr (title first) else Inr ''Unknown''))"

subsection \<open>The derived features of \<open>step_feature_engineer\<close>\<close>

definition np_where :: "bool list \<Rightarrow> 'a list \<Rightarrow> 'a \<Rightarrow> 'a list" where
  \<comment> \<open>\<open>np.where(cond, xs, y)\<close> with a scalar third argument\<close>
  "np_where cond xs y = map2 (\<lambda>b x. if b then x else y) cond xs"

definition np_clip :: "pyfloat \<Rightarrow> pyfloat \<Rightarrow> pyfloat \<Rightarrow> pyfloat" where
  \<comment> \<open>\<open>minimum(maximum(x, lo), hi)\<close>; a NaN stays a NaN\<close>
  "np_clip x lo hi = (if isnan x then NaN else if flt x lo then lo else if flt hi x then hi else x)"

definition sugar_to_carb_ratio :: "pyfloat list \<Rightarrow> pyfloat list \<Rightarrow> pyfloat list" where
  "sugar_to_carb_ratio sugars carbs =
     np_where (map2 (\<and>) (map (\<lambda>c. fgt c (Finite 0)) carbs) (map (\<lambda>s. \<not> isnan s) sugars))
              (map (\<lambda>x. np_clip x (Finite 0) (Finite 1)) (map2 fdiv sugars carbs))
              NaN"

definition cat_cal :: "pyfloat \<Rightarrow> string" where
  "cat_cal k = (if isnan k then ''Unknown''
                else if fle k (Finite 150) then ''Low''
                else if fle k (Finite 300) then ''Moderate''
                else ''High'')"

definition cat_sug :: "pyfloat \<Rightarrow> string" where
  "cat_sug s = (if isnan s then ''Unknown''
                else if flt s (Finite 5) then ''Low''
                else if fle s (Finite 15) then ''Moderate''
                else ''High'')"

definition ultra :: "pyfloat \<Rightarrow> string" where
  \<comment> \<open>the lambda of \<open>is_ultra_processed\<close>\<close>
  "ultra n = (if feq n (Finite 4) then ''Yes'' else if \<not> isnan n then ''No'' else ''Unknown'')"

subsection \<open>DataFrames\<close>

text \<open>
  A row is the dictionary of its cells, a DataFrame the list of its column names and the
  list of its rows; a cell that a row does not bind is null (NaN), as in
  \<open>pd.DataFrame(list_of_dicts)\<close>. A cell is null when it is \<open>None\<close> or NaN.
\<close>

type_synonym row = "(string \<times> pyval) list"

record frame =
  columns :: "string list"
  rows :: "row list"

definition isna :: "pyval \<Rightarrow> bool" where
  "isna v = (v = PNone \<or> v = PFloat NaN)"

definition cell :: "row \<Rightarrow> string \<Rightarrow> pyval" where
  "cell r c = (case map_of r c of None \<Rightarrow> PFloat NaN | Some v \<Rightarrow> v)"

definition DataFrame :: "row list \<Rightarrow> frame" where
  \<comment> \<open>the columns are the keys of the dictionaries, in the order of their first occurrence\<close>
  "DataFrame rs = \<lparr>columns = rev (remdups (rev (concat (map (map fst) rs)))), rows = rs\<rparr>"

definition bind_exn :: "exn + 'a \<Rightarrow> ('a \<Rightarrow> exn + 'b) \<Rightarrow> exn + 'b" where
  "bind_exn m f = (case m of Inl e \<Rightarrow> Inl e | Inr x \<Rightarrow> f x)"

fun map_exn :: "('a \<Rightarrow> exn + 'b) \<Rightarrow> 'a list \<Rightarrow> exn + 'b list" where
  "map_exn f [] = Inr []"
| "map_exn f (x # xs) =
     bind_exn (f x) (\<lambda>y. bind_exn (map_exn f xs) (\<lambda>ys. Inr (y # ys)))"

definition getcol :: "string \<Rightarrow> frame \<Rightarrow> exn + pyval list" where
  \<comment> \<open>\<open>df[c]\<close>\<close>
  "getcol c f = (if c \<in> set (columns f) then Inr (map (\<lambda>r. cell r c) (rows f))
                 else Inl (KeyError c))"

definition setcol :: "string \<Rightarrow> pyval list \<Rightarrow> frame \<Rightarrow> frame" where
  \<comment> \<open>\<open>df[c] = vs\<close>: overwrites the column, or appends it as the last one\<close>
  "setcol c vs f =
     \<lparr>columns = (if c \<in> set (columns f) then columns f else columns f @ [c]),
      rows = map2 (\<lambda>r v. AList.update c v r) (rows f) vs\<rparr>"

definition select_cols :: "string list \<Rightarrow> frame \<Rightarrow> exn + frame" where
  \<comment> \<open>\<open>df[[c1, ..., cn]]\<close>\<close>
  "select_cols cs f =
     (case filter (\<lambda>c. c \<notin> set (columns f)) cs of
        [] \<Rightarrow> Inr \<lparr>columns = cs, rows = map (\<lambda>r. map (\<lambda>c. (c, cell r c)) cs) (rows f)\<rparr>
      | m # ms \<Rightarrow> Inl (KeyError m))"

definition filter_rows :: "bool list \<Rightarrow> frame \<Rightarrow> frame" where
  \<comment> \<open>\<open>df[bs]\<close> for a boolean column \<open>bs\<close>\<close>
  "filter_rows bs f = f\<lparr>rows := map snd (filter fst (zip bs (rows f)))\<rparr>"

fun num_of :: "pyval \<Rightarrow> pyfloat option" where
  \<comment> \<open>the exact numeric value of a number\<close>
  "num_of (PBool b) = Some (Finite (if b then 1 else 0))"
| "num_of (PInt n) = Some (Finite (of_int n))"
| "num_of (PFloat f) = Some f"
| "num_of v = None"

fun unhashable :: "pyval \<Rightarrow> bool" where
  "unhashable (PList l) = True"
| "unhashable (PDict d) = True"
| "unhashable v = False"

definition key_eq :: "pyval \<Rightarrow> pyval \<Rightarrow> bool" where
  \<comment> \<open>equality of keys: nulls are one key, numbers are equal by value\<close>
  "key_eq a b =
     (if isna a \<or> isna b then isna a \<and> isna b
      else (case (num_of a, num_of b) of
              (Some x, Some y) \<Rightarrow> x = y
            | (None, None) \<Rightarrow> a = b
            | _ \<Rightarrow> False))"

fun dedup_first :: "string \<Rightarrow> pyval list \<Rightarrow> row list \<Rightarrow> row list" where
  \<comment> \<open>keeps the first row of every key; the second argument holds the keys seen so far\<close>
  "dedup_first c seen [] = []"
| "dedup_first c seen (r # rs) =
     (if \<exists>k \<in> set seen. key_eq k (cell r c) then dedup_first c seen rs
      else r # dedup_first c (cell r c # seen) rs)"

definition drop_duplicates :: "string \<Rightarrow> frame \<Rightarrow> exn + frame" where
  \<comment> \<open>\<open>df.drop_duplicates(c)\<close>: an empty frame is returned as it is, before the column is looked up\<close>
  "drop_duplicates c f =
     (if columns f = [] \<or> rows f = [] then Inr f
      else if c \<notin> set (columns f) then Inl (KeyError c)
      else if \<exists>r \<in> set (rows f). unhashable (cell r c) then Inl TypeError
      else Inr (f\<lparr>rows := dedup_first c [] (rows f)\<rparr>))"

definition merge_left :: "string \<Rightarrow> frame \<Rightarrow> frame \<Rightarrow> exn + frame" where
  \<comment> \<open>\<open>l.merge(r, on=k, how="left")\<close>, for frames that share no other column name: every
      left row, in order, once for each right row with its key, or once with nulls\<close>
  "merge_left k l r =
     (if k \<notin> set (columns l) \<or> k \<notin> set (columns r) then Inl (KeyError k)
      else
        let rc = filter (\<lambda>c. c \<noteq> k) (columns r) in
        Inr \<lparr>columns = columns l @ rc,
             rows = concat (map (\<lambda>lr.
                      (case filter (\<lambda>rr. key_eq (cell lr k) (cell rr k)) (rows r) of
                         [] \<Rightarrow> [lr]
                       | ms \<Rightarrow> map (\<lambda>rr. lr @ map (\<lambda>c. (c, cell rr c)) rc) ms))
                    (rows l))\<rparr>)"

subsection \<open>The CSV files between the steps\<close>

text \<open>
  A file written by \<open>to_csv(index=False)\<close> is its header line and its data lines, each
  the list of its fields; quoting is not modelled. A null cell is written as the empty
  field, every other cell as its text. \<open>read_csv\<close> gives each column a type from its
  fields: a field that is one of the reader's markers of a missing value is null; when
  all the other fields are integers, and none is missing, the column holds integers;
  when they are all numbers, it holds floats; when they are all truth values, it holds
  booleans; otherwise it holds the fields as strings.
\<close>

record csv_file =
  header :: "string list"
  body :: "string list list"

definition csv_text :: "(pyval \<Rightarrow> string) \<Rightarrow> pyval \<Rightarrow> string" where
  "csv_text rp v = (if isna v then [] else py_str rp v)"

definition to_csv :: "(pyval \<Rightarrow> string) \<Rightarrow> frame \<Rightarrow> csv_file" where
  "to_csv rp f =
     \<lparr>header = columns f,
      body = map (\<lambda>r. map (\<lambda>c. csv_text rp (cell r c)) (columns f)) (rows f)\<rparr>"

definition na_texts :: "string list" where
  \<comment> \<open>the default \<open>na_values\<close> of \<open>read_csv\<close>\<close>
  "na_texts = ['''', ''#N/A'', ''#N/A N/A'', ''#NA'', ''-1.#IND'', ''-1.#QNAN'', ''-NaN'',
               ''-nan'', ''1.#IND'', ''1.#QNAN'', ''<NA>'', ''N/A'', ''NA'', ''NULL'', ''NaN'',
               ''None'', ''n/a'', ''nan'', ''null'']"

definition c_space :: "char \<Rightarrow> bool" where
  "c_space c = ((of_char c :: nat) \<in> {9, 10, 11, 12, 13, 32})"

definition c_strip :: "string \<Rightarrow> string" where
  "c_strip s = rev (dropWhile c_space (rev (dropWhile c_space s)))"

definition is_int_text :: "string \<Rightarrow> bool" where
  "is_int_text t = (case parse_sign (c_strip t) of (neg, ds) \<Rightarrow> ds \<noteq> [] \<and> list_all is_digit ds)"

definition int_val :: "string \<Rightarrow> int" where
  "int_val t = (case parse_sign (c_strip t) of (neg, ds) \<Rightarrow>
                  if neg then - digits_val ds else digits_val ds)"

definition csv_float :: "string \<Rightarrow> pyfloat option" where
  \<comment> \<open>the reader's number syntax: as \<open>float\<close>, without underscores and without \<open>nan\<close>\<close>
  "csv_float t =
    (case parse_sign (c_strip t) of (neg, r) \<Rightarrow>
      let l = map lower_char r in
      if l = ''inf'' \<or> l = ''infinity'' then Some (if neg then NegInf else PosInf)
      else if CHR ''_'' \<in> set r then None
      else (case parse_number r of
              None \<Rightarrow> None
            | Some q \<Rightarrow> Some (round64 (if neg then - q else q))))"

definition bool_texts :: "(string \<times> bool) list" where
  "bool_texts = [(''True'', True), (''TRUE'', True), (''true'', True),
                 (''False'', False), (''FALSE'', False), (''false'', False)]"

definition infer_column :: "string list \<Rightarrow> pyval list" where
  "infer_column ts =
    (let nn = filter (\<lambda>t. t \<notin> set na_texts) ts;
         vs = map int_val nn
     in
     if nn \<noteq> [] \<and> list_all is_int_text nn \<and>
        \<not> (list_all (\<lambda>v. - (2 ^ 63) \<le> v \<and> v < 2 ^ 63) vs \<or> list_all (\<lambda>v. 0 \<le> v \<and> v < 2 ^ 64) vs)
       then map (\<lambda>t. if t \<in> set na_texts then PFloat NaN else PStr t) ts
     else if nn \<noteq> [] \<and> length nn = length ts \<and> list_all is_int_text nn
       then map (\<lambda>t. PInt (int_val t)) ts
     else if list_all (\<lambda>t. csv_float t \<noteq> None) nn
       then map (\<lambda>t. if t \<in> set na_texts then PFloat NaN
                      else (case csv_float t of None \<Rightarrow> PFloat NaN | Some x \<Rightarrow> PFloat x)) ts
     else if list_all (\<lambda>t. t \<in> set (map fst bool_texts)) nn
       then map (\<lambda>t. (case map_of bool_texts t of None \<Rightarrow> PFloat NaN | Some b \<Rightarrow> PBool b)) ts
     else map (\<lambda>t. if t \<in> set na_texts then PFloat NaN else PStr t) ts)"

definition field :: "string list \<Rightarrow> nat \<Rightarrow> string" where
  \<comment> \<open>a line with too few fields is completed with empty fields\<close>
  "field l j = (if j < length l then l ! j else [])"

definition read_csv :: "csv_file \<Rightarrow> exn + frame" where
  \<comment> \<open>a file without a header line has no columns to parse; the blank lines of a file of
      one column are skipped\<close>
  "read_csv f =
    (if header f = [] then Inl EmptyDataError
     else
       let ls = (if length (header f) = 1 then filter (\<lambda>l. l \<noteq> [[]]) (body f) else body f);
           cols = map (\<lambda>j. infer_column (map (\<lambda>l. field l j) ls)) [0..<length (header f)]
       in Inr \<lparr>columns = header f,
               rows = map (\<lambda>i. zip (header f) (map (\<lambda>col. col ! i) cols)) [0..<length ls]\<rparr>)"

subsection \<open>Step 2: \<open>step_clean_transform\<close>\<close>

definition nutrient_columns :: "(string \<times> string list) list" where
  \<comment> \<open>each column of the nutrient row with the keys of \<open>nutriments\<close> it is read from\<close>
  "nutrient_columns =
    [(''energy-kcal_value'', [''energy-kcal_100g'']),
     (''energy-kj_value'', [''energy-kj_100g'']),
     (''carbohydrates_value'', [''carbohydrates_100g'']),
     (''sugars_value'', [''sugars_100g'']),
     (''fat_value'', [''fat_100g'']),
     (''saturated-fat_value'', [''saturated-fat_100g'']),
     (''proteins_value'', [''proteins_100g'']),
     (''fiber_value'', [''fiber_100g'']),
     (''salt_value'', [''salt_100g'']),
     (''sodium_value'', [''sodium_100g'']),
     (''fruits-vegetables-nuts-estimate-from-ingredients_100g'',
        [''fruits-vegetables-nuts-estimate-from-ingredients_100g'']),
     (''nutrition-score-fr'', [''nutrition-score-fr_100g'', ''nutrition-score-fr'']),
     (''nova-group'', [''nova-group_100g'', ''nova-group''])]"

fun get_or :: "(string \<times> pyval) list \<Rightarrow> string list \<Rightarrow> pyval" where
  \<comment> \<open>\<open>d.get(k1) or d.get(k2) or ...\<close>\<close>
  "get_or d [] = PNone"
| "get_or d [k] = dict_get d k"
| "get_or d (k # ks) = py_or (dict_get d k) (get_or d ks)"

definition clean_record :: "(pyval \<Rightarrow> string) \<Rightarrow> pyval \<Rightarrow> exn + (row \<times> row \<times> row)" where
  \<comment> \<open>the body of the loop: the identity row, the nutrient row and the derived row\<close>
  "clean_record rp p =
    (case p of
       PDict d \<Rightarrow>
         let code = dict_get d ''code'';
             name = py_or (dict_get d ''product_name'') (PStr ''Unknown'')
         in
         bind_exn (normalize_brand rp (dict_get d ''brands'')) (\<lambda>brand.
         bind_exn (case py_or (dict_get d ''nutriments'') (PDict []) of
                     PDict n \<Rightarrow> Inr n
                   | other \<Rightarrow> Inl AttributeError) (\<lambda>nutr.
         bind_exn (map_exn (\<lambda>(col, keys).
                     bind_exn (to_float rp (get_or nutr keys)) (\<lambda>v. Inr (col, PFloat v)))
                   nutrient_columns) (\<lambda>vals.
         Inr ([(''product_code'', code), (''product_name'', name), (''brand'', PStr brand)],
              (''product_code'', code) # vals,
              [(''product_code'', code)]))))
     | other \<Rightarrow> Inl AttributeError)"

definition step_clean_transform ::
  "(pyval \<Rightarrow> string) \<Rightarrow> pyval list option \<Rightarrow> exn + (csv_file \<times> csv_file \<times> csv_file)" where
  \<comment> \<open>the argument is the list of the records of the raw file, \<open>None\<close> when the file is
      missing; the result is the product, nutrient and derived files\<close>
  "step_clean_transform rp raw =
    (case raw of
       None \<Rightarrow> Inl FileNotFoundError
     | Some ps \<Rightarrow>
         bind_exn (map_exn (clean_record rp) ps) (\<lambda>rs.
         bind_exn (drop_duplicates ''product_code'' (DataFrame (map fst rs))) (\<lambda>dfp.
         bind_exn (drop_duplicates ''product_code'' (DataFrame (map (fst \<circ> snd) rs))) (\<lambda>dfn.
         bind_exn (drop_duplicates ''product_code'' (DataFrame (map (snd \<circ> snd) rs))) (\<lambda>dfd.
         Inr (to_csv rp dfp, to_csv rp dfn, to_csv rp dfd))))))"

subsection \<open>Step 3: \<open>step_feature_engineer\<close>\<close>

definition to_numeric :: "pyval \<Rightarrow> pyfloat" where
  \<comment> \<open>a cell under \<open>pd.to_numeric(errors="coerce")\<close>\<close>
  "to_numeric v =
    (case v of
       PFloat f \<Rightarrow> f
     | PInt n \<Rightarrow> round64 (of_int n)
     | PBool b \<Rightarrow> Finite (if b then 1 else 0)
     | PStr s \<Rightarrow> (case csv_float s of None \<Rightarrow> NaN | Some f \<Rightarrow> f)
     | other \<Rightarrow> NaN)"

definition safe_num :: "string \<Rightarrow> frame \<Rightarrow> exn + frame" where
  \<comment> \<open>\<open>df[c] = safe_num(df[c])\<close>\<close>
  "safe_num c f = bind_exn (getcol c f) (\<lambda>vs. Inr (setcol c (map (PFloat \<circ> to_numeric) vs) f))"

definition floats :: "string \<Rightarrow> frame \<Rightarrow> exn + pyfloat list" where
  \<comment> \<open>a numeric column as floats\<close>
  "floats c f = bind_exn (getcol c f) (\<lambda>vs. Inr (map to_numeric vs))"

definition step_feature_engineer :: "csv_file \<Rightarrow> csv_file \<Rightarrow> exn + frame" where
  \<comment> \<open>the arguments are the product file and the nutrient file; the two snapshot files
      written at the end are not read again by the pipeline and are left out\<close>
  "step_feature_engineer product_csv nutrient_csv =
    bind_exn (read_csv product_csv) (\<lambda>dfp.
    bind_exn (read_csv nutrient_csv) (\<lambda>dfn.
    bind_exn (merge_left ''product_code'' dfp dfn) (\<lambda>df0.
    bind_exn (safe_num ''sugars_value'' df0) (\<lambda>df1.
    bind_exn (safe_num ''carbohydrates_value'' df1) (\<lambda>df2.
    bind_exn (safe_num ''energy-kcal_value'' df2) (\<lambda>df3.
    bind_exn (safe_num ''nova-group'' df3) (\<lambda>df4.
    bind_exn (floats ''carbohydrates_value'' df4) (\<lambda>carbs.
    bind_exn (floats ''sugars_value'' df4) (\<lambda>sugars.
    let df5 = setcol ''sugar_to_carb_ratio'' (map PFloat (sugar_to_carb_ratio sugars carbs)) df4 in
    bind_exn (floats ''energy-kcal_value'' df5) (\<lambda>energy.
    let df6 = setcol ''calorie_category'' (map (PStr \<circ> cat_cal) energy) df5 in
    bind_exn (floats ''sugars_value'' df6) (\<lambda>sugars'.
    let df7 = setcol ''sugar_category'' (map (PStr \<circ> cat_sug) sugars') df6 in
    bind_exn (floats ''nova-group'' df7) (\<lambda>nova.
    Inr (setcol ''is_ultra_processed'' (map (PStr \<circ> ultra) nova) df7)))))))))))))"

subsection \<open>Step 5: the queries of \<open>step_analytics\<close>\<close>

text \<open>
  The building blocks of the queries, with the behaviour of pandas 2: \<open>groupby\<close> sorts
  its keys and leaves out the null key, \<open>value_counts\<close> leaves out nulls and orders by
  falling count (equal counts in the order of first occurrence) into the columns of the
  counted name and \<open>count\<close>, \<open>nlargest\<close> leaves out nulls and keeps the earlier row among
  equal values, and \<open>mean\<close> skips nulls, adds from left to right and gives NaN when
  nothing is left.
\<close>

definition fillna :: "pyval \<Rightarrow> pyval \<Rightarrow> pyval" where
  "fillna d v = (if isna v then d else v)"

definition cmp_gt :: "pyfloat \<Rightarrow> pyval \<Rightarrow> exn + bool" where
  \<comment> \<open>one cell of \<open>column > threshold\<close>: a null is not greater, a string cannot be compared\<close>
  "cmp_gt t v =
     (if isna v then Inr False
      else (case num_of v of None \<Rightarrow> Inl TypeError | Some x \<Rightarrow> Inr (fgt x t)))"

definition rows_gt :: "string \<Rightarrow> pyfloat \<Rightarrow> frame \<Rightarrow> exn + frame" where
  \<comment> \<open>\<open>df[df[c] > t]\<close>\<close>
  "rows_gt c t f =
     bind_exn (getcol c f) (\<lambda>vs. bind_exn (map_exn (cmp_gt t) vs) (\<lambda>bs. Inr (filter_rows bs f)))"

definition eq_str :: "string \<Rightarrow> string \<Rightarrow> frame \<Rightarrow> exn + bool list" where
  \<comment> \<open>\<open>df[c] == s\<close>\<close>
  "eq_str c s f = bind_exn (getcol c f) (\<lambda>vs. Inr (map (\<lambda>v. v = PStr s) vs))"

definition rows_eq :: "string \<Rightarrow> string \<Rightarrow> frame \<Rightarrow> exn + frame" where
  \<comment> \<open>\<open>df[df[c] == s]\<close>\<close>
  "rows_eq c s f = bind_exn (eq_str c s f) (\<lambda>bs. Inr (filter_rows bs f))"

definition rows_eq2 :: "string \<Rightarrow> string \<Rightarrow> string \<Rightarrow> string \<Rightarrow> frame \<Rightarrow> exn + frame" where
  \<comment> \<open>\<open>df[(df[c1] == s1) & (df[c2] == s2)]\<close>\<close>
  "rows_eq2 c1 s1 c2 s2 f =
     bind_exn (eq_str c1 s1 f) (\<lambda>bs1. bind_exn (eq_str c2 s2 f) (\<lambda>bs2.
       Inr (filter_rows (map2 (\<and>) bs1 bs2) f)))"

fun uniq :: "pyval list \<Rightarrow> pyval list \<Rightarrow> pyval list" where
  \<comment> \<open>the distinct keys in the order of first occurrence\<close>
  "uniq seen [] = []"
| "uniq seen (v # vs) =
     (if \<exists>k \<in> set seen. key_eq k v then uniq seen vs else v # uniq (v # seen) vs)"

definition hashable_col :: "pyval list \<Rightarrow> exn + pyval list" where
  "hashable_col vs = (if \<exists>v \<in> set vs. unhashable v then Inl TypeError else Inr vs)"

definition nunique :: "pyval list \<Rightarrow> exn + pyval" where
  "nunique vs =
     bind_exn (hashable_col vs) (\<lambda>hs. Inr (PInt (int (length (uniq [] (filter (\<lambda>v. \<not> isna v) hs))))))"

fun str_le :: "string \<Rightarrow> string \<Rightarrow> bool" where
  "str_le [] ys = True"
| "str_le (x # xs) [] = False"
| "str_le (x # xs) (y # ys) =
     (if x = y then str_le xs ys else (of_char x :: nat) < of_char y)"

definition val_le :: "pyval \<Rightarrow> pyval \<Rightarrow> bool" where
  \<comment> \<open>the order of group keys: numbers by value, strings by code point, numbers first\<close>
  "val_le a b =
     (case (num_of a, num_of b) of
        (Some x, Some y) \<Rightarrow> fle x y
      | (Some x, None) \<Rightarrow> True
      | (None, Some y) \<Rightarrow> False
      | (None, None) \<Rightarrow> (case (a, b) of (PStr s, PStr t) \<Rightarrow> str_le s t | other \<Rightarrow> True))"

fun insert_key :: "pyval \<Rightarrow> pyval list \<Rightarrow> pyval list" where
  "insert_key x [] = [x]"
| "insert_key x (y # ys) = (if val_le x y then x # y # ys else y # insert_key x ys)"

definition sort_keys :: "pyval list \<Rightarrow> pyval list" where
  "sort_keys ks = foldr insert_key ks []"

definition groupby :: "string \<Rightarrow> frame \<Rightarrow> exn + (pyval \<times> row list) list" where
  \<comment> \<open>\<open>df.groupby(c)\<close>: every key that is not null, in order, with its rows\<close>
  "groupby c f =
     bind_exn (getcol c f) (\<lambda>vs. bind_exn (hashable_col vs) (\<lambda>hs.
       Inr (map (\<lambda>k. (k, filter (\<lambda>r. key_eq (cell r c) k) (rows f)))
                (sort_keys (uniq [] (filter (\<lambda>v. \<not> isna v) hs))))))"

definition as_double :: "pyval \<Rightarrow> exn + pyfloat" where
  "as_double v = (case v of
       PFloat x \<Rightarrow> Inr x
     | PInt n \<Rightarrow> Inr (round64 (of_int n))
     | PBool b \<Rightarrow> Inr (Finite (if b then 1 else 0))
     | other \<Rightarrow> Inl TypeError)"

definition mean :: "pyval list \<Rightarrow> exn + pyval" where
  "mean vs =
     bind_exn (map_exn as_double (filter (\<lambda>v. \<not> isna v) vs)) (\<lambda>xs.
       Inr (PFloat (if xs = [] then NaN
                    else fdiv (foldl fadd (Finite 0) xs) (Finite (of_nat (length xs))))))"

definition group_agg ::
  "string \<Rightarrow> string \<Rightarrow> string \<Rightarrow> (pyval list \<Rightarrow> exn + pyval) \<Rightarrow> frame \<Rightarrow> exn + frame" where
  \<comment> \<open>\<open>df.groupby(c)[v].agg().reset_index(name=out)\<close>\<close>
  "group_agg c v out agg f =
     bind_exn (groupby c f) (\<lambda>gs.
     bind_exn (getcol v f) (\<lambda>unused.
     bind_exn (map_exn (\<lambda>(k, rs). bind_exn (agg (map (\<lambda>r. cell r v) rs)) (\<lambda>a. Inr [(c, k), (out, a)])) gs) (\<lambda>out_rows.
       Inr \<lparr>columns = [c, out], rows = out_rows\<rparr>)))"

definition group_size :: "string \<Rightarrow> string \<Rightarrow> frame \<Rightarrow> exn + frame" where
  \<comment> \<open>\<open>df.groupby(c).size().reset_index(name=out)\<close>\<close>
  "group_size c out f =
     bind_exn (groupby c f) (\<lambda>gs.
       Inr \<lparr>columns = [c, out], rows = map (\<lambda>(k, rs). [(c, k), (out, PInt (int (length rs)))]) gs\<rparr>)"

fun insert_count :: "pyval \<times> nat \<Rightarrow> (pyval \<times> nat) list \<Rightarrow> (pyval \<times> nat) list" where
  "insert_count x [] = [x]"
| "insert_count x (y # ys) = (if snd x \<le> snd y then y # insert_count x ys else x # y # ys)"

definition value_counts :: "string \<Rightarrow> frame \<Rightarrow> exn + frame" where
  \<comment> \<open>\<open>df[c].value_counts().reset_index()\<close>\<close>
  "value_counts c f =
     bind_exn (getcol c f) (\<lambda>vs. bind_exn (hashable_col vs) (\<lambda>hs.
       let nn = filter (\<lambda>v. \<not> isna v) hs;
           counted = map (\<lambda>k. (k, length (filter (key_eq k) nn))) (uniq [] nn)
       in Inr \<lparr>columns = [c, ''count''],
               rows = map (\<lambda>(k, n). [(c, k), (''count'', PInt (int n))])
                          (foldl (\<lambda>acc x. insert_count x acc) [] counted)\<rparr>))"

definition head :: "nat \<Rightarrow> frame \<Rightarrow> frame" where
  "head n f = f\<lparr>rows := take n (rows f)\<rparr>"

fun insert_large :: "pyfloat \<times> row \<Rightarrow> (pyfloat \<times> row) list \<Rightarrow> (pyfloat \<times> row) list" where
  "insert_large x [] = [x]"
| "insert_large x (y # ys) = (if fle (fst x) (fst y) then y # insert_large x ys else x # y # ys)"

definition nlargest :: "nat \<Rightarrow> string \<Rightarrow> frame \<Rightarrow> exn + frame" where
  \<comment> \<open>\<open>df.nlargest(n, c)\<close>\<close>
  "nlargest n c f =
     bind_exn (getcol c f) (\<lambda>vs.
     bind_exn (map_exn (\<lambda>r. bind_exn (as_double (cell r c)) (\<lambda>x. Inr (x, r)))
                       (filter (\<lambda>r. \<not> isna (cell r c)) (rows f))) (\<lambda>xs.
       Inr (f\<lparr>rows := map snd (take n (foldl (\<lambda>acc x. insert_large x acc) [] xs))\<rparr>)))"

definition one_row :: "string \<Rightarrow> pyval \<Rightarrow> frame" where
  \<comment> \<open>\<open>pd.DataFrame([{c: v}])\<close>\<close>
  "one_row c v = DataFrame [[(c, v)]]"

definition fvn :: string where
  "fvn = ''fruits-vegetables-nuts-estimate-from-ingredients_100g''"

definition queries :: "(pyval \<Rightarrow> string) \<Rightarrow> (string \<times> (frame \<Rightarrow> exn + frame)) list" where
  \<comment> \<open>the 27 calls of \<open>w\<close>, in order: the name of the file and the table written to it\<close>
  "queries rp =
    [(''q01_products_per_brand'', group_size ''brand'' ''total''),
     (''q02_unique_products_per_brand'',
        group_agg ''brand'' ''product_code'' ''unique_products'' nunique),
     (''q03_top5_brands_by_count'', \<lambda>df. bind_exn (value_counts ''brand'' df) (\<lambda>t. Inr (head 5 t))),
     (''q04_missing_product_name'',
        \<lambda>df. bind_exn (getcol ''product_name'' df) (\<lambda>vs. Inr (filter_rows (map isna vs) df))),
     (''q05_unique_brands_count'',
        \<lambda>df. bind_exn (getcol ''brand'' df) (\<lambda>vs. bind_exn (nunique vs) (\<lambda>n.
               Inr (one_row ''unique_brands'' n)))),
     (''q06_codes_starting_3'',
        \<lambda>df. bind_exn (getcol ''product_code'' df) (\<lambda>vs.
               Inr (filter_rows (map (\<lambda>v. take 1 (py_str rp v) = ''3'') vs) df))),
     (''q07_top10_energy_kcal'',
        \<lambda>df. bind_exn (nlargest 10 ''energy-kcal_value'' df)
               (select_cols [''product_code'', ''brand'', ''energy-kcal_value''])),
     (''q08_avg_sugar_by_nova'', group_agg ''nova-group'' ''sugars_value'' ''avg_sugar'' mean),
     (''q09_fat_gt20'', rows_gt ''fat_value'' (Finite 20)),
     (''q10_avg_carbs_per_product'',
        group_agg ''product_code'' ''carbohydrates_value'' ''carbohydrates_value'' mean),
     (''q11_sodium_gt1g'', rows_gt ''sodium_value'' (Finite 1)),
     (''q12_fvn_nonzero'',
        \<lambda>df. bind_exn (getcol fvn df) (\<lambda>vs.
               bind_exn (map_exn (cmp_gt (Finite 0)) (map (fillna (PInt 0)) vs)) (\<lambda>bs.
               Inr (filter_rows bs df)))),
     (''q13_energy_gt500'', rows_gt ''energy-kcal_value'' (Finite 500)),
     (''q14_count_per_calorie_category'', value_counts ''calorie_category''),
     (''q15_high_sugar'', rows_eq ''sugar_category'' ''High''),
     (''q16_avg_ratio_high_calorie'',
        \<lambda>df. bind_exn (rows_eq ''calorie_category'' ''High'' df) (\<lambda>hi.
               bind_exn (getcol ''sugar_to_carb_ratio'' hi) (\<lambda>vs.
               bind_exn (mean vs) (\<lambda>m. Inr (one_row ''avg_ratio'' m))))),
     (''q17_high_cal_high_sugar'',
        rows_eq2 ''calorie_category'' ''High'' ''sugar_category'' ''High''),
     (''q18_ultra_processed'', rows_eq ''is_ultra_processed'' ''Yes''),
     (''q19_ratio_gt0_7'', rows_gt ''sugar_to_carb_ratio'' (round64 (7 / 10))),
     (''q20_avg_ratio_by_calorie_category'',
        group_agg ''calorie_category'' ''sugar_to_carb_ratio'' ''sugar_to_carb_ratio'' mean),
     (''q21_top5_brands_high_cal'',
        \<lambda>df. bind_exn (rows_eq ''calorie_category'' ''High'' df) (\<lambda>hi.
               bind_exn (value_counts ''brand'' hi) (\<lambda>t. Inr (head 5 t)))),
     (''q22_avg_kcal_by_calorie_category'',
        group_agg ''calorie_category'' ''energy-kcal_value'' ''energy-kcal_value'' mean),
     (''q23_ultra_count_per_brand'',
        \<lambda>df. bind_exn (rows_eq ''is_ultra_processed'' ''Yes'' df) (value_counts ''brand'')),
     (''q24_high_sugar_high_cal_brand'',
        \<lambda>df. bind_exn (rows_eq2 ''sugar_category'' ''High'' ''calorie_category'' ''High'' df)
               (select_cols [''brand'', ''sugars_value'', ''energy-kcal_value''])),
     (''q25_avg_sugar_ultra_by_brand'',
        \<lambda>df. bind_exn (rows_eq ''is_ultra_processed'' ''Yes'' df)
               (group_agg ''brand'' ''sugars_value'' ''sugars_value'' mean)),
     (''q26_avg_fvn_by_calorie_category'', group_agg ''calorie_category'' fvn fvn mean),
     (''q27_top5_by_ratio'',
        \<lambda>df. bind_exn (nlargest 5 ''sugar_to_carb_ratio'' df)
               (select_cols [''product_code'', ''brand'', ''product_name'', ''sugar_to_carb_ratio'',
                             ''calorie_category'', ''sugar_category'']))]"

fun run_queries ::
  "(string \<times> (frame \<Rightarrow> exn + frame)) list \<Rightarrow> frame \<Rightarrow> (string \<times> frame) list \<times> exn option" where
  \<comment> \<open>the statements run in order; an exception ends the run, after the files written so far\<close>
  "run_queries [] df = ([], None)"
| "run_queries ((name, q) # qs) df =
     (case q df of
        Inl e \<Rightarrow> ([], Some e)
      | Inr t \<Rightarrow> (case run_queries qs df of (out, r) \<Rightarrow> ((name, t) # out, r)))"

definition step_analytics ::
  "(pyval \<Rightarrow> string) \<Rightarrow> frame \<Rightarrow> frame \<times> (string \<times> frame) list \<times> exn option" where
  \<comment> \<open>the result is the caller's frame as the step leaves it, the files written to
      \<open>out/\<close>, and the exception that ended the step, if any\<close>
  "step_analytics rp df =
    (case getcol ''brand'' df of
       Inl e \<Rightarrow> (df, [], Some e)
     | Inr bs \<Rightarrow>
         let df1 = setcol ''brand'' (map (fillna (PStr ''Unknown'')) bs) df in
         (case getcol ''sugar_to_carb_ratio'' df1 of
            Inl e \<Rightarrow> (df1, [], Some e)
          | Inr rs \<Rightarrow>
              let df2 = setcol ''sugartocarbratio'' rs df1 in
              (case run_queries (queries rp) df2 of (out, r) \<Rightarrow> (df2, out, r))))"

subsection \<open>The pipeline\<close>

definition engineered :: "(pyval \<Rightarrow> string) \<Rightarrow> pyval list option \<Rightarrow> exn + frame" where
  \<comment> \<open>the table that \<open>step_feature_engineer\<close> returns when it runs after \<open>step_clean_transform\<close>\<close>
  "engineered rp raw =
     bind_exn (step_clean_transform rp raw) (\<lambda>(p, n, d). step_feature_engineer p n)"

definition pipeline ::
  "(pyval \<Rightarrow> string) \<Rightarrow> pyval list option \<Rightarrow> frame \<times> (string \<times> frame) list \<times> exn option" where
  \<comment> \<open>the steps of the main block after the fetch, without the plots of \<open>step_eda\<close>; the
      frame is the engineered table as the run leaves it (empty when no step made one)\<close>
  "pipeline rp raw =
    (case engineered rp raw of
       Inl e \<Rightarrow> (\<lparr>columns = [], rows = []\<rparr>, [], Some e)
     | Inr df \<Rightarrow> step_analytics rp df)"

subsection \<open>Tables and records for the examples\<close>

definition sample_rows :: "row list" where
  "sample_rows =
    [[(''product_code'', PStr ''A1''), (''product_name'', PStr ''Dark 70''), (''brand'', PStr ''Lindt''),
      (''energy-kcal_value'', PFloat (Finite 540)), (''energy-kj_value'', PFloat (Finite 2260)),
      (''carbohydrates_value'', PFloat (Finite 32)), (''sugars_value'', PFloat (Finite 24)),
      (''fat_value'', PFloat (Finite 42)), (''saturated-fat_value'', PFloat (Finite 24)),
      (''proteins_value'', PFloat (Finite 8)), (''fiber_value'', PFloat NaN),
      (''salt_value'', PFloat (Finite 0)), (''sodium_value'', PFloat (Finite 0)),
      (''fruits-vegetables-nuts-estimate-from-ingredients_100g'', PFloat (Finite 0)),
      (''nutrition-score-fr'', PFloat (Finite 20)), (''nova-group'', PFloat (Finite 4)),
      (''sugar_to_carb_ratio'', PFloat (Finite (3 / 4))), (''calorie_category'', PStr ''High''),
      (''sugar_category'', PStr ''High''), (''is_ultra_processed'', PStr ''Yes'')],
     [(''product_code'', PStr ''31''), (''product_name'', PStr ''Cocoa Nibs''), (''brand'', PFloat NaN),
      (''energy-kcal_value'', PFloat (Finite 120)), (''energy-kj_value'', PFloat (Finite 502)),
      (''carbohydrates_value'', PFloat (Finite 16)), (''sugars_value'', PFloat (Finite 4)),
      (''fat_value'', PFloat (Finite 2)), (''saturated-fat_value'', PFloat (Finite 1)),
      (''proteins_value'', PFloat (Finite 3)), (''fiber_value'', PFloat (Finite 9)),
      (''salt_value'', PFloat NaN), (''sodium_value'', PFloat NaN),
      (''fruits-vegetables-nuts-estimate-from-ingredients_100g'', PFloat NaN),
      (''nutrition-score-fr'', PFloat NaN), (''nova-group'', PFloat NaN),
      (''sugar_to_carb_ratio'', PFloat (Finite (1 / 4))), (''calorie_category'', PStr ''Low''),
      (''sugar_category'', PStr ''Low''), (''is_ultra_processed'', PStr ''Unknown'')]]"

definition sample_table :: frame where
  \<comment> \<open>an engineered table of two products\<close>
  "sample_table = DataFrame sample_rows"

definition no_fat_table :: frame where
  \<comment> \<open>the same table without its column \<open>fat_value\<close>\<close>
  "no_fat_table = DataFrame (map (filter (\<lambda>kv. fst kv \<noteq> ''fat_value'')) sample_rows)"

definition zero_padded_records :: "pyval list" where
  \<comment> \<open>two products whose codes differ by leading zeros\<close>
  "zero_padded_records =
    [PDict [(''code'', PStr ''000123''), (''product_name'', PStr ''Noir''), (''brands'', PStr ''Lindt, Inc'')],
     PDict [(''code'', PStr ''123''), (''product_name'', PStr ''Lait''), (''brands'', PStr ''Other'')]]"



section \<open>Properties\<close>

subsection \<open>Helper lemmas\<close>

lemma fle_NaN_right [simp]: "fle x NaN = False"
  by (cases x) simp_all

lemma flt_NaN_right [simp]: "flt x NaN = False"
  by (cases x) simp_all





lemma length_queries: "length (queries rp) = 27"
  by (simp add: queries_def)

lemma distinct_query_names: "distinct (map fst (queries rp))"
  by (simp add: queries_def)

lemma run_queries_result:
  "run_queries qs df = (out, r) \<Longrightarrow>
     length out \<le> length qs \<and>
     (\<forall>j < length out. fst (out ! j) = fst (qs ! j) \<and> snd (qs ! j) df = Inr (snd (out ! j))) \<and>
     (case r of None \<Rightarrow> length out = length qs
      | Some e \<Rightarrow> length out < length qs \<and> snd (qs ! length out) df = Inl e)"
proof (induction qs arbitrary: out r)
  case Nil
  then show ?case by simp
next
  case (Cons nq qs)
  obtain name q where nq: "nq = (name, q)" by (cases nq)
  show ?case
  proof (cases "q df")
    case (Inl e)
    with Cons.prems nq show ?thesis by auto
  next
    case (Inr t)
    obtain out' r' where rec: "run_queries qs df = (out', r')"
      by (cases "run_queries qs df")
    from Cons.prems nq Inr rec have out: "out = (name, t) # out'" and r: "r = r'"
      by simp_all
    note ih = Cons.IH [OF rec]
    have nth: "fst (out ! j) = fst ((nq # qs) ! j) \<and> snd ((nq # qs) ! j) df = Inr (snd (out ! j))"
      if "j < length out" for j
    proof (cases j)
      case 0
      then show ?thesis by (simp add: out nq Inr)
    next
      case (Suc k)
      with that out have "k < length out'" by simp
      with ih Suc show ?thesis by (simp add: out)
    qed
    from ih have "length out \<le> length (nq # qs)"
      by (simp add: out)
    moreover have "(case r of None \<Rightarrow> length out = length (nq # qs)
      | Some e \<Rightarrow> length out < length (nq # qs) \<and> snd ((nq # qs) ! length out) df = Inl e)"
      using ih by (simp add: out r split: option.splits)
    ultimately show ?thesis using nth by blast
  qed
qed

lemma step_analytics_cases:
  "step_analytics rp df = (df', out, r) \<Longrightarrow>
     (\<exists>e. getcol ''brand'' df = Inl e \<and> df' = df \<and> out = [] \<and> r = Some e) \<or>
     (\<exists>bs e. getcol ''brand'' df = Inr bs \<and> df' = setcol ''brand'' (map (fillna (PStr ''Unknown'')) bs) df \<and>
        getcol ''sugar_to_carb_ratio'' df' = Inl e \<and> out = [] \<and> r = Some e) \<or>
     (\<exists>bs rs. getcol ''brand'' df = Inr bs \<and>
        getcol ''sugar_to_carb_ratio'' (setcol ''brand'' (map (fillna (PStr ''Unknown'')) bs) df) = Inr rs \<and>
        df' = setcol ''sugartocarbratio'' rs (setcol ''brand'' (map (fillna (PStr ''Unknown'')) bs) df) \<and>
        run_queries (queries rp) df' = (out, r))"
  by (auto simp: step_analytics_def Let_def split: sum.splits prod.splits)

lemma cell_update: "cell (AList.update c v r) c' = (if c' = c then v else cell r c')"
  by (simp add: cell_def update_conv')

lemma length_getcol: "getcol c f = Inr vs \<Longrightarrow> length vs = length (rows f)"
  by (auto simp: getcol_def split: if_splits)

lemma rows_setcol: "length vs = length (rows f) \<Longrightarrow> length (rows (setcol c vs f)) = length (rows f)"
  by (simp add: setcol_def)

lemma set_columns_setcol: "set (columns (setcol c vs f)) = insert c (set (columns f))"
  by (auto simp: setcol_def)

lemma getcol_setcol_other:
  assumes "c' \<noteq> c" and "length vs = length (rows f)"
  shows "getcol c' (setcol c vs f) = getcol c' f"
proof -
  have "map (\<lambda>r. cell r c') (map2 (\<lambda>r v. AList.update c v r) (rows f) vs) = map (\<lambda>r. cell r c') (rows f)"
    using assms by (auto simp: list_eq_iff_nth_eq cell_update)
  with assms show ?thesis
    by (simp add: getcol_def setcol_def)
qed

lemma getcol_setcol_same:
  assumes "length vs = length (rows f)"
  shows "getcol c (setcol c vs f) = Inr vs"
proof -
  have "map (\<lambda>r. cell r c) (map2 (\<lambda>r v. AList.update c v r) (rows f) vs) = vs"
    using assms by (auto simp: list_eq_iff_nth_eq cell_update)
  then show ?thesis
    by (simp add: getcol_def setcol_def)
qed


























subsection \<open>The claims\<close>

text \<open>
  C1, as the code has it. \<open>step_analytics\<close> has no handler: when one of its statements
  raises, the step ends with that exception. The files of the queries before the failing
  one have been written, each with the result of its query on the table; the failing
  query and all the queries after it are not written, and nothing is skipped or recorded.
\<close>

theorem C1_failure_ends_the_run:
  assumes "step_analytics rp df = (df', out, Some e)"
  shows "length out < 27 \<and>
         (\<forall>j < length out. fst (out ! j) = fst (queries rp ! j) \<and>
                            snd (queries rp ! j) df' = Inr (snd (out ! j))) \<and>
         (\<forall>j. length out \<le> j \<and> j < 27 \<longrightarrow> fst (queries rp ! j) \<notin> fst ` set out) \<and>
         (getcol ''brand'' df' = Inl e \<or> getcol ''sugar_to_carb_ratio'' df' = Inl e \<or>
          snd (queries rp ! length out) df' = Inl e)"
proof -
  have main: "length out < 27 \<and>
         (\<forall>j < length out. fst (out ! j) = fst (queries rp ! j) \<and>
                            snd (queries rp ! j) df' = Inr (snd (out ! j))) \<and>
         (getcol ''brand'' df' = Inl e \<or> getcol ''sugar_to_carb_ratio'' df' = Inl e \<or>
          snd (queries rp ! length out) df' = Inl e)"
    using step_analytics_cases [OF assms]
  proof (elim disjE exE conjE)
    fix bs rs
    assume "run_queries (queries rp) df' = (out, Some e)"
    from run_queries_result [OF this] show ?thesis
      by (simp add: length_queries)
  qed auto
  have "fst (queries rp ! j) \<notin> fst ` set out" if j: "length out \<le> j" "j < 27" for j
  proof
    assume "fst (queries rp ! j) \<in> fst ` set out"
    then obtain i where i: "i < length out" "fst (out ! i) = fst (queries rp ! j)"
      by (auto simp: in_set_conv_nth)
    with main have "fst (queries rp ! i) = fst (queries rp ! j)" by simp
    moreover have "i < length (queries rp)" "j < length (queries rp)" "i \<noteq> j"
      using i j main by (simp_all add: length_queries)
    ultimately show False
      using distinct_query_names [of rp] by (simp add: distinct_conv_nth)
  qed
  with main show ?thesis by blast
qed

theorem C1_failure_ends_the_run_witness:
  "\<forall>rp. snd (snd (step_analytics rp no_fat_table)) = Some (KeyError ''fat_value'') \<and>
        length (fst (snd (step_analytics rp no_fat_table))) < 27 \<and>
        snd (queries rp ! length (fst (snd (step_analytics rp no_fat_table))))
            (fst (step_analytics rp no_fat_table)) = Inl (KeyError ''fat_value'')"
proof
  fix rp
  obtain df' out r where run: "step_analytics rp no_fat_table = (df', out, r)"
    by (cases "step_analytics rp no_fat_table")
  have "snd (snd (step_analytics rp no_fat_table)) = Some (KeyError ''fat_value'')"
    by code_simp
  with run have r: "r = Some (KeyError ''fat_value'')" by simp
  have "isl (getcol ''brand'' (fst (step_analytics rp no_fat_table))) = False"
       "isl (getcol ''sugar_to_carb_ratio'' (fst (step_analytics rp no_fat_table))) = False"
    by code_simp+
  with run have "getcol ''brand'' df' \<noteq> Inl (KeyError ''fat_value'')"
       "getcol ''sugar_to_carb_ratio'' df' \<noteq> Inl (KeyError ''fat_value'')"
    by auto
  with C1_failure_ends_the_run [OF run [unfolded r]]
  have "length out < 27 \<and> snd (queries rp ! length out) df' = Inl (KeyError ''fat_value'')"
    by blast
  with run r show "snd (snd (step_analytics rp no_fat_table)) = Some (KeyError ''fat_value'') \<and>
        length (fst (snd (step_analytics rp no_fat_table))) < 27 \<and>
        snd (queries rp ! length (fst (snd (step_analytics rp no_fat_table))))
            (fst (step_analytics rp no_fat_table)) = Inl (KeyError ''fat_value'')"
    by simp
qed

text \<open>
  C1 as stated fails on a table without the column \<open>fat_value\<close>: the ninth query
  raises, the eleventh query can be computed on the table, and its file is not written.
\<close>

theorem C1_later_queries_not_computed_counterexample:
  "\<forall>rp. snd (queries rp ! 8) (fst (step_analytics rp no_fat_table)) = Inl (KeyError ''fat_value'') \<and>
        \<not> isl (snd (queries rp ! 10) (fst (step_analytics rp no_fat_table))) \<and>
        fst (queries rp ! 10) = ''q11_sodium_gt1g'' \<and>
        ''q11_sodium_gt1g'' \<notin> fst ` set (fst (snd (step_analytics rp no_fat_table))) \<and>
        map fst (fst (snd (step_analytics rp no_fat_table))) = map fst (take 8 (queries rp)) \<and>
        snd (snd (step_analytics rp no_fat_table)) = Some (KeyError ''fat_value'')"
proof
  fix rp
  show "snd (queries rp ! 8) (fst (step_analytics rp no_fat_table)) = Inl (KeyError ''fat_value'') \<and>
        \<not> isl (snd (queries rp ! 10) (fst (step_analytics rp no_fat_table))) \<and>
        fst (queries rp ! 10) = ''q11_sodium_gt1g'' \<and>
        ''q11_sodium_gt1g'' \<notin> fst ` set (fst (snd (step_analytics rp no_fat_table))) \<and>
        map fst (fst (snd (step_analytics rp no_fat_table))) = map fst (take 8 (queries rp)) \<and>
        snd (snd (step_analytics rp no_fat_table)) = Some (KeyError ''fat_value'')"
    by code_simp
qed

text \<open>
  C2, as the code has it. Before its queries, \<open>step_analytics\<close> assigns to two columns
  of the table it is given: \<open>brand\<close> is overwritten with its nulls replaced by
  \<open>Unknown\<close>, and the column \<open>sugartocarbratio\<close> is set to a copy of
  \<open>sugar_to_carb_ratio\<close>. The 27 queries only read the table: when all of them have
  been computed, the table is the given one after these two assignments, so every other
  column has its cells, no column is removed and the number of rows is the same.
\<close>

theorem C2_only_two_assignments:
  assumes "step_analytics rp df = (df', out, None)"
  shows "\<exists>bs rs. getcol ''brand'' df = Inr bs \<and> getcol ''sugar_to_carb_ratio'' df = Inr rs \<and>
     df' = setcol ''sugartocarbratio'' rs (setcol ''brand'' (map (fillna (PStr ''Unknown'')) bs) df) \<and>
     getcol ''brand'' df' = Inr (map (fillna (PStr ''Unknown'')) bs) \<and>
     getcol ''sugartocarbratio'' df' = Inr rs \<and>
     (\<forall>c. c \<noteq> ''brand'' \<and> c \<noteq> ''sugartocarbratio'' \<longrightarrow> getcol c df' = getcol c df) \<and>
     length (rows df') = length (rows df) \<and>
     set (columns df') = insert ''sugartocarbratio'' (set (columns df)) \<and>
     length out = 27"
proof -
  let ?fill = "map (fillna (PStr ''Unknown''))"
  from step_analytics_cases [OF assms]
  obtain bs rs where bs: "getcol ''brand'' df = Inr bs"
    and rs1: "getcol ''sugar_to_carb_ratio'' (setcol ''brand'' (?fill bs) df) = Inr rs"
    and df': "df' = setcol ''sugartocarbratio'' rs (setcol ''brand'' (?fill bs) df)"
    and run: "run_queries (queries rp) df' = (out, None)"
    by auto
  let ?df1 = "setcol ''brand'' (?fill bs) df"
  have lb: "length (?fill bs) = length (rows df)"
    using length_getcol [OF bs] by simp
  have l1: "length (rows ?df1) = length (rows df)"
    using rows_setcol [OF lb] .
  have lr: "length rs = length (rows ?df1)"
    using length_getcol [OF rs1] .
  have rs: "getcol ''sugar_to_carb_ratio'' df = Inr rs"
    using rs1 getcol_setcol_other [OF _ lb, of "''sugar_to_carb_ratio''" "''brand''"] by simp
  have brand: "getcol ''brand'' df' = Inr (?fill bs)"
    unfolding df' using getcol_setcol_other [OF _ lr, of "''brand''" "''sugartocarbratio''"]
      getcol_setcol_same [OF lb, of "''brand''"] by simp
  have copy: "getcol ''sugartocarbratio'' df' = Inr rs"
    unfolding df' by (rule getcol_setcol_same [OF lr])
  have other: "getcol c df' = getcol c df" if "c \<noteq> ''brand'' \<and> c \<noteq> ''sugartocarbratio''" for c
    unfolding df' using that getcol_setcol_other [OF _ lr, of c "''sugartocarbratio''"]
      getcol_setcol_other [OF _ lb, of c "''brand''"] by simp
  have len: "length (rows df') = length (rows df)"
    unfolding df' using rows_setcol [OF lr] l1 by simp
  have cols: "set (columns df') = insert ''sugartocarbratio'' (set (columns df))"
    unfolding df' using bs by (auto simp: set_columns_setcol getcol_def split: if_splits)
  have n: "length out = 27"
    using run_queries_result [OF run] by (simp add: length_queries)
  from bs rs df' brand copy other len cols n show ?thesis by blast
qed

theorem C2_only_two_assignments_witness:
  "\<forall>rp. snd (snd (step_analytics rp sample_table)) = None \<and>
        length (fst (snd (step_analytics rp sample_table))) = 27 \<and>
        getcol ''fat_value'' (fst (step_analytics rp sample_table)) = getcol ''fat_value'' sample_table"
proof
  fix rp
  obtain df' out r where run: "step_analytics rp sample_table = (df', out, r)"
    by (cases "step_analytics rp sample_table")
  have "snd (snd (step_analytics rp sample_table)) = None"
    by code_simp
  with run have r: "r = None" by simp
  note ex = C2_only_two_assignments [OF run [unfolded r]]
  have other: "\<forall>c. c \<noteq> ''brand'' \<and> c \<noteq> ''sugartocarbratio'' \<longrightarrow> getcol c df' = getcol c sample_table"
    using ex by (elim exE conjE)
  have n: "length out = 27"
    using ex by (elim exE conjE)
  have "getcol ''fat_value'' df' = getcol ''fat_value'' sample_table"
    using other by simp
  with n have "length out = 27 \<and> getcol ''fat_value'' df' = getcol ''fat_value'' sample_table"
    by simp
  with run r show "snd (snd (step_analytics rp sample_table)) = None \<and>
        length (fst (snd (step_analytics rp sample_table))) = 27 \<and>
        getcol ''fat_value'' (fst (step_analytics rp sample_table)) = getcol ''fat_value'' sample_table"
    by simp
qed

text \<open>
  C2 as stated fails on the sample table: all 27 queries are computed, and the table has
  one more column and another \<open>brand\<close> column than before.
\<close>

theorem C2_table_changed_counterexample:
  "\<forall>rp. (case step_analytics rp sample_table of (df', out, r) \<Rightarrow>
          r = None \<and>
          map fst out = map fst (queries rp) \<and>
          columns df' = columns sample_table @ [''sugartocarbratio''] \<and>
          getcol ''brand'' df' = Inr [PStr ''Lindt'', PStr ''Unknown'']) \<and>
        ''sugartocarbratio'' \<notin> set (columns sample_table) \<and>
        getcol ''brand'' sample_table = Inr [PStr ''Lindt'', PFloat NaN]"
proof
  fix rp
  show "(case step_analytics rp sample_table of (df', out, r) \<Rightarrow>
          r = None \<and>
          map fst out = map fst (queries rp) \<and>
          columns df' = columns sample_table @ [''sugartocarbratio''] \<and>
          getcol ''brand'' df' = Inr [PStr ''Lindt'', PStr ''Unknown'']) \<and>
        ''sugartocarbratio'' \<notin> set (columns sample_table) \<and>
        getcol ''brand'' sample_table = Inr [PStr ''Lindt'', PFloat NaN]"
    by code_simp
qed

text \<open>
  C3 on the code. For zero raw records \<open>step_clean_transform\<close> writes three files
  without a header, since a DataFrame built from no rows has no columns;
  \<open>step_feature_engineer\<close> then fails on reading the product file, and no report
  table is produced.
\<close>

theorem C3_empty_input_raises:
  "\<forall>rp. step_clean_transform rp (Some []) =
          Inr (\<lparr>header = [], body = []\<rparr>, \<lparr>header = [], body = []\<rparr>, \<lparr>header = [], body = []\<rparr>) \<and>
        step_feature_engineer \<lparr>header = [], body = []\<rparr> \<lparr>header = [], body = []\<rparr> = Inl EmptyDataError \<and>
        pipeline rp (Some []) = (\<lparr>columns = [], rows = []\<rparr>, [], Some EmptyDataError)"
proof
  fix rp
  show "step_clean_transform rp (Some []) =
          Inr (\<lparr>header = [], body = []\<rparr>, \<lparr>header = [], body = []\<rparr>, \<lparr>header = [], body = []\<rparr>) \<and>
        step_feature_engineer \<lparr>header = [], body = []\<rparr> \<lparr>header = [], body = []\<rparr> = Inl EmptyDataError \<and>
        pipeline rp (Some []) = (\<lparr>columns = [], rows = []\<rparr>, [], Some EmptyDataError)"
    by code_simp
qed

text \<open>
  C4 on the code. Two records with the distinct codes \<open>000123\<close> and \<open>123\<close> are both
  kept by \<open>drop_duplicates\<close> and written to the product and nutrient files; read back,
  both codes are the integer 123, and the left join returns four rows for that one code,
  two of them with the identity fields of the second record.
\<close>

theorem C4_zero_padded_codes_merge_twice:
  "\<forall>rp. map_sum id (body \<circ> fst) (step_clean_transform rp (Some zero_padded_records)) =
          Inr [[''000123'', ''Noir'', ''Lindt''], [''123'', ''Lait'', ''Other'']] \<and>
        (case engineered rp (Some zero_padded_records) of
           Inl e \<Rightarrow> False
         | Inr df \<Rightarrow>
             getcol ''product_code'' df = Inr [PInt 123, PInt 123, PInt 123, PInt 123] \<and>
             getcol ''product_name'' df =
               Inr [PStr ''Noir'', PStr ''Noir'', PStr ''Lait'', PStr ''Lait''] \<and>
             getcol ''brand'' df =
               Inr [PStr ''Lindt'', PStr ''Lindt'', PStr ''Other'', PStr ''Other''])"
proof
  fix rp
  show "map_sum id (body \<circ> fst) (step_clean_transform rp (Some zero_padded_records)) =
          Inr [[''000123'', ''Noir'', ''Lindt''], [''123'', ''Lait'', ''Other'']] \<and>
        (case engineered rp (Some zero_padded_records) of
           Inl e \<Rightarrow> False
         | Inr df \<Rightarrow>
             getcol ''product_code'' df = Inr [PInt 123, PInt 123, PInt 123, PInt 123] \<and>
             getcol ''product_name'' df =
               Inr [PStr ''Noir'', PStr ''Noir'', PStr ''Lait'', PStr ''Lait''] \<and>
             getcol ''brand'' df =
               Inr [PStr ''Lindt'', PStr ''Lindt'', PStr ''Other'', PStr ''Other''])"
    by code_simp
qed



text \<open>
  C6. \<open>calorie_category\<close> sends every energy value to exactly one of four buckets:
  Unknown when the energy is null, Low when it is at most 150, Moderate when it is above
  150 and at most 300, High when it is above 300.
\<close>

theorem C6_cat_cal_buckets:
  "(cat_cal k = ''Unknown'' \<longleftrightarrow> isnan k) \<and>
   (cat_cal k = ''Low'' \<longleftrightarrow> fle k (Finite 150)) \<and>
   (cat_cal k = ''Moderate'' \<longleftrightarrow> flt (Finite 150) k \<and> fle k (Finite 300)) \<and>
   (cat_cal k = ''High'' \<longleftrightarrow> flt (Finite 300) k)"
  by (cases k) (auto simp: cat_cal_def isnan_def)









end
